theory Spec2Isabelle
  imports Main
begin

section \<open>Divine admin panel server: the access-decision engine and the site state\<close>

text \<open>
  The development embeds the latest revision of the panel server (the one with client
  statuses, IP bans and telemetry). JavaScript values that arrive from outside (request
  bodies) or that the code builds as object literals (decisions, responses) are values of
  type \<open>jsval\<close>; the two in-memory singletons \<open>accessStore\<close> and \<open>state\<close> are
  records, their objects-used-as-dictionaries are maps. Every mutation of a singleton is
  an update of the \<open>world\<close> that a function receives and returns. \<open>Date.now()\<close> reads
  the next value of a clock that belongs to the world, so two calls in one handler may
  return different times, as in the source.

  The listing endpoint \<open>GET /api/admin/list\<close>, which changes nothing, and the reading
  of the two documents at start-up are left out. A request body is a \<open>jsval\<close> whose
  objects have distinct keys; a JavaScript number is an integer.

  Strings are lists of 8-bit characters; \<open>toLowerCase\<close> is modelled on the ASCII letters.
  A string field that is missing from a stored object is the empty string and a missing
  number is \<open>0\<close>: every reader in the source treats them alike (\<open>x || ""\<close>,
  \<open>x || 0\<close>, \<open>!x\<close>).
\<close>

subsection \<open>JavaScript values\<close>

datatype jsval =
    JUndefined
  | JNull
  | JBool bool
  | JNum int
  | JStr string
  | JArr "jsval list"
  | JObj "(string \<times> jsval) list"

text \<open>Truthiness, as \<open>!!x\<close>, \<open>x && y\<close>, \<open>x || y\<close> and \<open>if (x)\<close> decide it.\<close>

fun truthy :: "jsval \<Rightarrow> bool" where
  "truthy JUndefined = False"
| "truthy JNull = False"
| "truthy (JBool b) = b"
| "truthy (JNum n) = (n \<noteq> 0)"
| "truthy (JStr s) = (s \<noteq> [])"
| "truthy (JArr xs) = True"
| "truthy (JObj kvs) = True"

text \<open>\<open>a || b\<close>\<close>

definition jsOr :: "jsval \<Rightarrow> jsval \<Rightarrow> jsval" where
  "jsOr a b = (if truthy a then a else b)"

text \<open>\<open>o.k\<close> on a value that is not null or undefined: an own property of an object,
  \<open>undefined\<close> otherwise (none of the names the server reads is a property of an array
  or of a primitive).\<close>

fun getProp :: "jsval \<Rightarrow> string \<Rightarrow> jsval" where
  "getProp (JObj kvs) k = (case map_of kvs k of Some v \<Rightarrow> v | None \<Rightarrow> JUndefined)"
| "getProp v k = JUndefined"

text \<open>\<open>o && o.k\<close>\<close>

definition andProp :: "jsval \<Rightarrow> string \<Rightarrow> jsval" where
  "andProp obj k = (if truthy obj then getProp obj k else obj)"

text \<open>\<open>typeof x === "object"\<close> (true of \<open>null\<close> too)\<close>

fun typeofObject :: "jsval \<Rightarrow> bool" where
  "typeofObject JNull = True"
| "typeofObject (JArr xs) = True"
| "typeofObject (JObj kvs) = True"
| "typeofObject v = False"

subsection \<open>String helpers\<close>

text \<open>The characters \<open>String.prototype.trim\<close> removes, among the 8-bit ones: TAB, LF,
  VT, FF, CR, SP and NBSP.\<close>

definition isWhiteSpace :: "char \<Rightarrow> bool" where
  "isWhiteSpace c = (of_char c \<in> {9, 10, 11, 12, 13, 32, 160 :: nat})"

definition trim :: "string \<Rightarrow> string" where
  "trim s = rev (dropWhile isWhiteSpace (rev (dropWhile isWhiteSpace s)))"

definition lowerChar :: "char \<Rightarrow> char" where
  "lowerChar c =
     (case map_of (zip ''ABCDEFGHIJKLMNOPQRSTUVWXYZ'' ''abcdefghijklmnopqrstuvwxyz'') c of
        Some l \<Rightarrow> l
      | None \<Rightarrow> c)"

definition toLowerCase :: "string \<Rightarrow> string" where
  "toLowerCase s = map lowerChar s"

text \<open>\<open>s.includes(sub)\<close>\<close>

fun includes_str :: "string \<Rightarrow> string \<Rightarrow> bool" where
  "includes_str [] sub = (sub = [])"
| "includes_str (c # cs) sub = (take (length sub) (c # cs) = sub \<or> includes_str cs sub)"

text \<open>\<open>normalizeStr\<close>: a string is trimmed, anything else becomes the empty string.\<close>

fun normalizeStr :: "jsval \<Rightarrow> string" where
  "normalizeStr (JStr s) = trim s"
| "normalizeStr v = []"

definition clampStr :: "jsval \<Rightarrow> nat \<Rightarrow> string" where
  "clampStr s maxLen =
     (let x = normalizeStr s in
      if x = [] then []
      else if length x \<le> maxLen then x
      else take maxLen x)"

definition formatUA :: "jsval \<Rightarrow> string" where
  "formatUA ua = clampStr ua 300"

definition normalizeLegacyStatus :: "jsval \<Rightarrow> string" where
  "normalizeLegacyStatus status =
     (let s = toLowerCase (normalizeStr status) in
      if s = [] then ''unverified''
      else if s = ''unbanned'' then ''unverified''
      else if s = ''banned'' then ''banned''
      else if s = ''verified'' then ''verified''
      else if s = ''unverified'' then ''unverified''
      else if s = ''suspicious'' then ''suspicious''
      else ''unverified'')"

subsection \<open>The data model\<close>

record clientRecord =
  status :: string
  firstSeenAt :: int
  lastSeenAt :: int
  verifiedAt :: int
  suspiciousAt :: int
  ua :: string
  platform :: string
  language :: string
  timezone :: string
  screen :: string
  ipFirst :: string
  ipLast :: string
  ipLastSeenAt :: int
  banMessage :: string

record ipBanRecord =
  message :: string
  createdAt :: int
  updatedAt :: int

text \<open>\<open>accessStore\<close>: the access-lockdown flag, the clients by client id and the IP bans
  by address.\<close>

record accessStore =
  lockdown :: bool
  clients :: "string \<rightharpoonup> clientRecord"
  ipBans :: "string \<rightharpoonup> ipBanRecord"

text \<open>\<open>state\<close>: the site lockdown and the broadcast, \<open>null\<close> or the object
  \<open>{id, message, createdAt, expiresAt}\<close>. The broadcast stays a JavaScript value, since
  \<open>pruneExpiredBroadcast\<close> inspects it dynamically.\<close>

record siteLockdown =
  enabled :: bool
  updatedAtL :: int

record siteState =
  lockdownS :: siteLockdown
  broadcast :: jsval

text \<open>A web socket of \<open>wss.clients\<close>: its ready state, whether \<open>send\<close> throws, and what
  it has been sent.\<close>

record wsClient =
  readyState :: nat
  sendThrows :: bool
  received :: "jsval list"

text \<open>
  The world of the process: the two singletons, the documents written to
  \<open>access.json\<close> and \<open>state.json\<close> (each call of \<open>saveAccess\<close> or \<open>saveState\<close> puts
  the store it serialises at the head; a write that fails is caught and logged by the
  source and is not modelled), the clock with the number of readings taken, the source of
  \<open>Math.random\<close> suffixes, and the open web sockets.
\<close>

record world =
  accessStore :: accessStore
  state :: siteState
  accessWrites :: "accessStore list"
  stateWrites :: "siteState list"
  clock :: "nat \<Rightarrow> int"
  ticks :: nat
  randoms :: "nat \<Rightarrow> string"
  draws :: nat
  wsClients :: "wsClient list"

text \<open>The three shared secrets of the environment; an unset one is the empty string.\<close>

record config =
  ADMIN_PIN :: string
  AUTH_PIN :: string
  UNBAN_PIN :: string

text \<open>What a handler sees of a request: \<open>req.ip\<close>, \<open>req.socket.remoteAddress\<close>, the
  \<open>user-agent\<close> and \<open>x-admin-pin\<close> headers (empty when absent) and the parsed JSON
  body.\<close>

record request =
  ip :: string
  remoteAddress :: string
  userAgent :: string
  adminPin :: string
  body :: jsval

type_synonym response = "nat \<times> jsval"

subsection \<open>Clock, persistence and the store\<close>

definition nowMs :: "world \<Rightarrow> int \<times> world" where
  "nowMs w = (clock w (ticks w), w\<lparr>ticks := Suc (ticks w)\<rparr>)"

definition saveAccess :: "world \<Rightarrow> world" where
  "saveAccess w = w\<lparr>accessWrites := accessStore w # accessWrites w\<rparr>"

definition saveState :: "world \<Rightarrow> world" where
  "saveState w = w\<lparr>stateWrites := state w # stateWrites w\<rparr>"

text \<open>\<open>accessStore.clients[id] = rec\<close>, and an assignment to fields of the object that
  \<open>accessStore.clients[id]\<close> refers to.\<close>

definition setClient :: "string \<Rightarrow> clientRecord \<Rightarrow> world \<Rightarrow> world" where
  "setClient cid rec w =
     w\<lparr>accessStore := (accessStore w)\<lparr>clients := (clients (accessStore w))(cid \<mapsto> rec)\<rparr>\<rparr>"

definition updClient :: "string \<Rightarrow> (clientRecord \<Rightarrow> clientRecord) \<Rightarrow> world \<Rightarrow> world" where
  "updClient cid f w =
     (case clients (accessStore w) cid of
        Some rec \<Rightarrow> setClient cid (f rec) w
      | None \<Rightarrow> w)"

definition getRequestIP :: "request \<Rightarrow> string" where
  "getRequestIP req =
     normalizeStr (jsOr (JStr (ip req)) (jsOr (JStr (remoteAddress req)) (JStr [])))"

text \<open>\<open>ensureClientRecord\<close> returns the object stored under the id. The model returns
  the id, the only path by which the callers reach that object.\<close>

definition newClientRecord :: "int \<Rightarrow> int \<Rightarrow> clientRecord" where
  "newClientRecord t1 t2 =
     \<lparr>status = ''unverified'', firstSeenAt = t1, lastSeenAt = t2, verifiedAt = 0,
      suspiciousAt = 0, ua = [], platform = [], language = [], timezone = [], screen = [],
      ipFirst = [], ipLast = [], ipLastSeenAt = 0, banMessage = []\<rparr>"

definition ensureClientRecord :: "world \<Rightarrow> jsval \<Rightarrow> string option \<times> world" where
  "ensureClientRecord w clientID =
     (let cid = normalizeStr clientID in
      if cid = [] then (None, w)
      else
        (case clients (accessStore w) cid of
           Some existing \<Rightarrow>
             (let (t, w1) = nowMs w;
                  w2 = updClient cid (\<lambda>r. r\<lparr>lastSeenAt := t\<rparr>) w1;
                  w3 = updClient cid
                         (\<lambda>r. r\<lparr>status := normalizeLegacyStatus (JStr (status r))\<rparr>) w2
              in (Some cid, w3))
         | None \<Rightarrow>
             (let (t1, w1) = nowMs w;
                  (t2, w2) = nowMs w1;
                  w3 = setClient cid (newClientRecord t1 t2) w2
              in (Some cid, saveAccess w3))))"

definition recordClientTelemetry :: "world \<Rightarrow> request \<Rightarrow> jsval \<Rightarrow> jsval \<Rightarrow> world" where
  "recordClientTelemetry w req clientID device =
     (case ensureClientRecord w clientID of
        (None, w1) \<Rightarrow> w1
      | (Some cid, w1) \<Rightarrow>
          (let addr = getRequestIP req;
               hua = formatUA (jsOr (JStr (userAgent req)) (JStr []));
               w2 = updClient cid
                      (\<lambda>r. if ipFirst r = [] \<and> addr \<noteq> [] then r\<lparr>ipFirst := addr\<rparr> else r) w1;
               w3 = (if addr \<noteq> [] then
                       (let (t, w') = nowMs w2
                        in updClient cid (\<lambda>r. r\<lparr>ipLast := addr, ipLastSeenAt := t\<rparr>) w')
                     else w2);
               d = (if truthy device \<and> typeofObject device then device else JObj []);
               w4 = updClient cid
                      (\<lambda>r. r\<lparr>ua := formatUA (jsOr (getProp d ''ua'') (JStr hua)),
                              platform := clampStr (jsOr (getProp d ''platform'') (JStr [])) 80,
                              language := clampStr (jsOr (getProp d ''language'') (JStr [])) 40,
                              timezone := clampStr (jsOr (getProp d ''timezone'') (JStr [])) 64,
                              screen := clampStr (jsOr (getProp d ''screen'') (JStr [])) 32\<rparr>) w3;
               (t, w5) = nowMs w4;
               w6 = updClient cid (\<lambda>r. r\<lparr>lastSeenAt := t\<rparr>) w5
           in saveAccess w6))"

subsection \<open>The decision engine\<close>

definition isDesktopish :: "clientRecord \<Rightarrow> bool" where
  "isDesktopish rec =
     (let u = toLowerCase (ua rec);
          p = toLowerCase (platform rec)
      in if includes_str p ''win'' then True
         else if includes_str p ''mac'' then True
         else if includes_str u ''windows'' then True
         else if includes_str u ''mac os'' then True
         else False)"

definition ipBanDecision :: "world \<Rightarrow> jsval \<Rightarrow> (string \<times> jsval) list option" where
  "ipBanDecision w addr =
     (let x = normalizeStr addr in
      if x = [] then None
      else
        (case ipBans (accessStore w) x of
           None \<Rightarrow> None
         | Some rec \<Rightarrow>
             Some [(''banned'', JBool True),
                   (''reason'', JStr ''ip_ban''),
                   (''banMessage'', JStr (clampStr (jsOr (JStr (message rec)) (JStr [])) 500))]))"

definition computeAccessDecision :: "world \<Rightarrow> request \<Rightarrow> jsval \<Rightarrow> jsval \<times> world" where
  "computeAccessDecision w req clientID =
     (let cid = normalizeStr clientID;
          addr = getRequestIP req
      in
      case ipBanDecision w (JStr addr) of
        Some ipBan \<Rightarrow> (JObj (ipBan @ [(''allowed'', JBool False)]), w)
      | None \<Rightarrow>
          if cid = [] then
            (if lockdown (accessStore w)
             then (JObj [(''banned'', JBool True), (''allowed'', JBool False),
                         (''reason'', JStr ''missing_client_id'')], w)
             else (JObj [(''banned'', JBool False), (''allowed'', JBool True),
                         (''reason'', JStr ''missing_client_id_allowed'')], w))
          else
            (case clients (accessStore w) cid of
               None \<Rightarrow>
                 if lockdown (accessStore w)
                 then (JObj [(''banned'', JBool True), (''allowed'', JBool False),
                             (''reason'', JStr ''lockdown_unknown'')], w)
                 else (JObj [(''banned'', JBool False), (''allowed'', JBool True),
                             (''reason'', JStr ''unknown_allowed''),
                             (''status'', JStr ''unverified'')], w)
             | Some rec0 \<Rightarrow>
                 (let rec = rec0\<lparr>status := normalizeLegacyStatus (JStr (status rec0))\<rparr>;
                      w1 = setClient cid rec w
                  in
                  if status rec = ''banned'' then
                    (JObj [(''banned'', JBool True), (''allowed'', JBool False),
                           (''reason'', JStr ''client_ban''),
                           (''status'', JStr ''banned''),
                           (''banMessage'',
                              JStr (clampStr (jsOr (JStr (banMessage rec)) (JStr [])) 500))], w1)
                  else if status rec = ''suspicious'' then
                    (JObj [(''banned'', JBool False), (''allowed'', JBool True),
                           (''reason'', JStr ''client_suspicious''),
                           (''status'', JStr ''suspicious'')], w1)
                  else if status rec = ''unverified'' \<and> isDesktopish rec then
                    (let (t, w2) = nowMs w1;
                         w3 = setClient cid (rec\<lparr>status := ''suspicious'', suspiciousAt := t\<rparr>) w2
                     in (JObj [(''banned'', JBool False), (''allowed'', JBool True),
                               (''reason'', JStr ''desktop_unverified_marked_suspicious''),
                               (''status'', JStr ''suspicious'')], saveAccess w3))
                  else if lockdown (accessStore w1) then
                    (let st = normalizeLegacyStatus (JStr (status rec)) in
                     if st \<noteq> ''verified''
                     then (JObj [(''banned'', JBool True), (''allowed'', JBool False),
                                 (''reason'', JStr ''lockdown_not_verified''),
                                 (''status'', JStr st)], w1)
                     else (JObj [(''banned'', JBool False), (''allowed'', JBool True),
                                 (''reason'', JStr ''lockdown_verified''),
                                 (''status'', JStr st)], w1))
                  else
                    (JObj [(''banned'', JBool False), (''allowed'', JBool True),
                           (''reason'', JStr ''known_allowed''),
                           (''status'', JStr (status rec))], w1))))"


subsection \<open>Site state: lazy expiry, fan-out\<close>

definition pruneExpiredBroadcast :: "world \<Rightarrow> world" where
  "pruneExpiredBroadcast w =
     (if \<not> truthy (broadcast (state w)) then w
      else
        (case getProp (broadcast (state w)) ''expiresAt'' of
           JNum e \<Rightarrow>
             (let (t, w1) = nowMs w in
              if t \<ge> e then saveState (w1\<lparr>state := (state w1)\<lparr>broadcast := JNull\<rparr>\<rparr>)
              else w1)
         | _ \<Rightarrow> w))"

text \<open>\<open>Number.prototype.toString(36)\<close> on an integer.\<close>

fun toString36 :: "nat \<Rightarrow> string" where
  "toString36 n =
     (if n < 36 then [''0123456789abcdefghijklmnopqrstuvwxyz'' ! n]
      else toString36 (n div 36) @ [''0123456789abcdefghijklmnopqrstuvwxyz'' ! (n mod 36)])"

definition intToString36 :: "int \<Rightarrow> string" where
  "intToString36 i = (if i < 0 then CHR ''-'' # toString36 (nat (- i)) else toString36 (nat i))"

text \<open>\<open>makeId\<close>: the clock in base 36, a dash, and the eight characters that
  \<open>Math.random().toString(36).slice(2, 10)\<close> yields, taken from the random source.\<close>

definition makeId :: "world \<Rightarrow> string \<times> world" where
  "makeId w =
     (let t = clock w (ticks w);
          r = randoms w (draws w)
      in (intToString36 t @ ''-'' @ r, w\<lparr>ticks := Suc (ticks w), draws := Suc (draws w)\<rparr>))"

text \<open>\<open>safeSend\<close> and \<open>broadcastWS\<close>: an exception of \<open>send\<close> is swallowed.\<close>

definition safeSend :: "wsClient \<Rightarrow> jsval \<Rightarrow> wsClient" where
  "safeSend ws obj = (if sendThrows ws then ws else ws\<lparr>received := received ws @ [obj]\<rparr>)"

definition broadcastWS :: "world \<Rightarrow> jsval \<Rightarrow> world" where
  "broadcastWS w obj =
     w\<lparr>wsClients :=
         map (\<lambda>client. if readyState client = 1 then safeSend client obj else client)
           (wsClients w)\<rparr>"

definition lockdownJson :: "siteLockdown \<Rightarrow> jsval" where
  "lockdownJson l = JObj [(''enabled'', JBool (enabled l)), (''updatedAt'', JNum (updatedAtL l))]"

subsection \<open>The handlers\<close>

definition requirePin ::
  "config \<Rightarrow> request \<Rightarrow> (world \<Rightarrow> response \<times> world) \<Rightarrow> world \<Rightarrow> response \<times> world" where
  "requirePin cfg req next w =
     (let pin = adminPin req in
      if ADMIN_PIN cfg = [] \<or> pin \<noteq> ADMIN_PIN cfg
      then ((401, JObj [(''ok'', JBool False), (''error'', JStr ''Unauthorized'')]), w)
      else next w)"

definition badRequest :: "string \<Rightarrow> response" where
  "badRequest msg = (400, JObj [(''ok'', JBool False), (''error'', JStr msg)])"

text \<open>Express answers an exception that a handler throws with status 500. The ban and
  unban handlers assign to the result of \<open>ensureClientRecord\<close> without testing it.\<close>

definition serverError :: response where
  "serverError = (500, JUndefined)"

text \<open>\<open>rec.status\<close> read through the reference that \<open>ensureClientRecord\<close> returned.\<close>

definition statusOf :: "world \<Rightarrow> string \<Rightarrow> string" where
  "statusOf w cid = (case clients (accessStore w) cid of Some rec \<Rightarrow> status rec | None \<Rightarrow> [])"

definition health :: "world \<Rightarrow> response \<times> world" where
  "health w = (let w1 = pruneExpiredBroadcast w in ((200, JObj [(''ok'', JBool True)]), w1))"

definition api_state :: "world \<Rightarrow> response \<times> world" where
  "api_state w =
     (let w1 = pruneExpiredBroadcast w in
      ((200, JObj [(''ok'', JBool True),
                   (''lockdown'', lockdownJson (lockdownS (state w1))),
                   (''broadcast'', broadcast (state w1))]), w1))"

text \<open>A new web socket: the server adds it to \<open>wss.clients\<close> and the handler sends it
  the snapshot.\<close>

definition ws_connection :: "world \<Rightarrow> wsClient \<Rightarrow> world" where
  "ws_connection w ws =
     (let w1 = pruneExpiredBroadcast w;
          ws1 = safeSend ws (JObj [(''type'', JStr ''state''),
                                   (''lockdown'', lockdownJson (lockdownS (state w1))),
                                   (''broadcast'', broadcast (state w1))])
      in w1\<lparr>wsClients := wsClients w1 @ [ws1]\<rparr>)"

definition api_hello :: "world \<Rightarrow> request \<Rightarrow> response \<times> world" where
  "api_hello w req =
     (let clientID = normalizeStr (andProp (body req) ''clientID'');
          device = (if truthy (body req) \<and> typeofObject (getProp (body req) ''device'')
                    then getProp (body req) ''device'' else JNull)
      in
      if clientID = [] then (badRequest ''clientID required'', w)
      else
        (let w1 = recordClientTelemetry w req (JStr clientID) device;
             (rec, w2) = ensureClientRecord w1 (JStr clientID)
         in ((200, JObj [(''ok'', JBool True),
                         (''clientID'', JStr clientID),
                         (''status'',
                            JStr (case rec of
                                    Some cid \<Rightarrow> normalizeLegacyStatus (JStr (statusOf w2 cid))
                                  | None \<Rightarrow> ''unverified''))]), w2)))"

definition api_auth :: "config \<Rightarrow> world \<Rightarrow> request \<Rightarrow> response \<times> world" where
  "api_auth cfg w req =
     (let clientID = normalizeStr (andProp (body req) ''clientID'');
          pinAttempt = normalizeStr (andProp (body req) ''pinAttempt'');
          w1 = (if clientID \<noteq> [] then recordClientTelemetry w req (JStr clientID) JNull else w)
      in
      if AUTH_PIN cfg = [] then
        ((200, JObj [(''ok'', JBool True), (''allowed'', JBool False)]), w1)
      else
        (let allowed = (pinAttempt = AUTH_PIN cfg);
             w2 = (if allowed \<and> clientID \<noteq> [] then
                     (case ensureClientRecord w1 (JStr clientID) of
                        (Some cid, wa) \<Rightarrow>
                          (let wb = updClient cid (\<lambda>r. r\<lparr>status := ''verified''\<rparr>) wa;
                               (t1, wc) = nowMs wb;
                               wd = updClient cid (\<lambda>r. r\<lparr>verifiedAt := t1\<rparr>) wc;
                               (t2, we) = nowMs wd;
                               wf = updClient cid (\<lambda>r. r\<lparr>lastSeenAt := t2\<rparr>) we
                           in saveAccess wf)
                      | (None, wa) \<Rightarrow> wa)
                   else w1)
         in ((200, JObj [(''ok'', JBool True), (''allowed'', JBool allowed)]), w2)))"

definition api_check :: "world \<Rightarrow> request \<Rightarrow> response \<times> world" where
  "api_check w req =
     (let clientID = normalizeStr (andProp (body req) ''clientID'');
          w1 = (if clientID \<noteq> [] then recordClientTelemetry w req (JStr clientID) JNull else w);
          (decision, w2) = computeAccessDecision w1 req (JStr clientID)
      in ((200, JObj [(''ok'', JBool True),
                      (''banned'', JBool (truthy (getProp decision ''banned''))),
                      (''allowed'', JBool (truthy (getProp decision ''allowed''))),
                      (''lockdown'', JBool (lockdown (accessStore w2))),
                      (''status'', jsOr (getProp decision ''status'') (JStr ''unverified'')),
                      (''reason'', jsOr (getProp decision ''reason'') (JStr [])),
                      (''banMessage'', jsOr (getProp decision ''banMessage'') (JStr []))]), w2))"

definition api_unban :: "config \<Rightarrow> world \<Rightarrow> request \<Rightarrow> response \<times> world" where
  "api_unban cfg w req =
     (let clientID = normalizeStr (andProp (body req) ''clientID'');
          pinAttempt = normalizeStr (andProp (body req) ''pinAttempt'')
      in
      if clientID = [] then (badRequest ''clientID required'', w)
      else
        (let w1 = recordClientTelemetry w req (JStr clientID) JNull in
         if UNBAN_PIN cfg = [] then
           ((200, JObj [(''ok'', JBool True), (''allowed'', JBool False)]), w1)
         else if pinAttempt \<noteq> UNBAN_PIN cfg then
           ((200, JObj [(''ok'', JBool True), (''allowed'', JBool False)]), w1)
         else
           (let w2 = (case ensureClientRecord w1 (JStr clientID) of
                        (Some cid, wa) \<Rightarrow>
                          (let wb = updClient cid
                                      (\<lambda>r. r\<lparr>status := ''unverified'', banMessage := []\<rparr>) wa;
                               (t, wc) = nowMs wb;
                               wd = updClient cid (\<lambda>r. r\<lparr>lastSeenAt := t\<rparr>) wc
                           in saveAccess wd)
                      | (None, wa) \<Rightarrow> wa)
            in ((200, JObj [(''ok'', JBool True), (''allowed'', JBool True)]), w2))))"

text \<open>The operator's endpoints: each runs behind \<open>requirePin\<close>.\<close>

definition admin_verify :: "config \<Rightarrow> world \<Rightarrow> request \<Rightarrow> response \<times> world" where
  "admin_verify cfg w req =
     requirePin cfg req
       (\<lambda>w. let clientID = normalizeStr (andProp (body req) ''clientID'') in
             if clientID = [] then (badRequest ''clientID required'', w)
             else
               (case ensureClientRecord w (JStr clientID) of
                  (None, w1) \<Rightarrow> (badRequest ''clientID required'', w1)
                | (Some cid, w1) \<Rightarrow>
                    (let w2 = updClient cid (\<lambda>r. r\<lparr>status := ''verified''\<rparr>) w1;
                         (t1, w3) = nowMs w2;
                         w4 = updClient cid (\<lambda>r. r\<lparr>verifiedAt := t1\<rparr>) w3;
                         (t2, w5) = nowMs w4;
                         w6 = saveAccess (updClient cid (\<lambda>r. r\<lparr>lastSeenAt := t2\<rparr>) w5)
                     in ((200, JObj [(''ok'', JBool True),
                                     (''status'', JStr (statusOf w6 cid))]), w6)))) w"

definition admin_suspicious :: "config \<Rightarrow> world \<Rightarrow> request \<Rightarrow> response \<times> world" where
  "admin_suspicious cfg w req =
     requirePin cfg req
       (\<lambda>w. let clientID = normalizeStr (andProp (body req) ''clientID'') in
             if clientID = [] then (badRequest ''clientID required'', w)
             else
               (case ensureClientRecord w (JStr clientID) of
                  (None, w1) \<Rightarrow> (badRequest ''clientID required'', w1)
                | (Some cid, w1) \<Rightarrow>
                    (let w2 = updClient cid (\<lambda>r. r\<lparr>status := ''suspicious''\<rparr>) w1;
                         (t1, w3) = nowMs w2;
                         w4 = updClient cid (\<lambda>r. r\<lparr>suspiciousAt := t1\<rparr>) w3;
                         (t2, w5) = nowMs w4;
                         w6 = saveAccess (updClient cid (\<lambda>r. r\<lparr>lastSeenAt := t2\<rparr>) w5)
                     in ((200, JObj [(''ok'', JBool True),
                                     (''status'', JStr (statusOf w6 cid))]), w6)))) w"

definition admin_clear_suspicious :: "config \<Rightarrow> world \<Rightarrow> request \<Rightarrow> response \<times> world" where
  "admin_clear_suspicious cfg w req =
     requirePin cfg req
       (\<lambda>w. let clientID = normalizeStr (andProp (body req) ''clientID'') in
             if clientID = [] then (badRequest ''clientID required'', w)
             else
               (case ensureClientRecord w (JStr clientID) of
                  (None, w1) \<Rightarrow> (badRequest ''clientID required'', w1)
                | (Some cid, w1) \<Rightarrow>
                    (let w4 = (if normalizeLegacyStatus (JStr (statusOf w1 cid)) = ''suspicious''
                               then
                                 (let w2 = updClient cid (\<lambda>r. r\<lparr>status := ''unverified''\<rparr>) w1;
                                      (t, w3) = nowMs w2
                                  in saveAccess (updClient cid (\<lambda>r. r\<lparr>lastSeenAt := t\<rparr>) w3))
                               else w1)
                     in ((200, JObj [(''ok'', JBool True),
                                     (''status'',
                                        JStr (normalizeLegacyStatus (JStr (statusOf w4 cid))))]),
                         w4)))) w"

definition admin_ban :: "config \<Rightarrow> world \<Rightarrow> request \<Rightarrow> response \<times> world" where
  "admin_ban cfg w req =
     requirePin cfg req
       (\<lambda>w. let clientID = normalizeStr (andProp (body req) ''clientID'');
                 msg = clampStr (andProp (body req) ''banMessage'') 500
             in
             if clientID = [] then (badRequest ''clientID required'', w)
             else
               (case ensureClientRecord w (JStr clientID) of
                  (None, w1) \<Rightarrow> (serverError, w1)
                | (Some cid, w1) \<Rightarrow>
                    (let w2 = updClient cid (\<lambda>r. r\<lparr>status := ''banned'', banMessage := msg\<rparr>) w1;
                         (t, w3) = nowMs w2;
                         w4 = saveAccess (updClient cid (\<lambda>r. r\<lparr>lastSeenAt := t\<rparr>) w3)
                     in ((200, JObj [(''ok'', JBool True),
                                     (''status'', JStr (statusOf w4 cid))]), w4)))) w"

definition admin_unban :: "config \<Rightarrow> world \<Rightarrow> request \<Rightarrow> response \<times> world" where
  "admin_unban cfg w req =
     requirePin cfg req
       (\<lambda>w. let clientID = normalizeStr (andProp (body req) ''clientID'') in
             if clientID = [] then (badRequest ''clientID required'', w)
             else
               (case ensureClientRecord w (JStr clientID) of
                  (None, w1) \<Rightarrow> (serverError, w1)
                | (Some cid, w1) \<Rightarrow>
                    (let w2 = updClient cid (\<lambda>r. r\<lparr>status := ''unverified'', banMessage := []\<rparr>) w1;
                         (t, w3) = nowMs w2;
                         w4 = saveAccess (updClient cid (\<lambda>r. r\<lparr>lastSeenAt := t\<rparr>) w3)
                     in ((200, JObj [(''ok'', JBool True),
                                     (''status'', JStr (statusOf w4 cid))]), w4)))) w"

definition setIpBans :: "(string \<rightharpoonup> ipBanRecord) \<Rightarrow> world \<Rightarrow> world" where
  "setIpBans m w = w\<lparr>accessStore := (accessStore w)\<lparr>ipBans := m\<rparr>\<rparr>"

definition admin_ban_ip :: "config \<Rightarrow> world \<Rightarrow> request \<Rightarrow> response \<times> world" where
  "admin_ban_ip cfg w req =
     requirePin cfg req
       (\<lambda>w. let addr = normalizeStr (andProp (body req) ''ip'');
                 msg = clampStr (andProp (body req) ''banMessage'') 500
             in
             if addr = [] then (badRequest ''ip required'', w)
             else
               (let existing = ipBans (accessStore w) addr;
                    (created, w1) =
                       (case existing of
                          Some e \<Rightarrow> if createdAt e \<noteq> 0 then (createdAt e, w) else nowMs w
                        | None \<Rightarrow> nowMs w);
                    (t, w2) = nowMs w1;
                    w3 = setIpBans ((ipBans (accessStore w2))
                            (addr \<mapsto> \<lparr>message = msg, createdAt = created, updatedAt = t\<rparr>)) w2;
                    w4 = saveAccess w3
                in ((200, JObj [(''ok'', JBool True), (''ip'', JStr addr),
                                (''banned'', JBool True)]), w4))) w"



definition api_broadcast :: "config \<Rightarrow> world \<Rightarrow> request \<Rightarrow> response \<times> world" where
  "api_broadcast cfg w req =
     requirePin cfg req
       (\<lambda>w. let msg = (if truthy (body req)
                        then (case getProp (body req) ''message'' of
                                JStr m \<Rightarrow> trim m
                              | _ \<Rightarrow> [])
                        else [])
             in
             if msg = [] then (badRequest ''message required'', w)
             else
               (let (created, w1) = nowMs w;
                    expires = created + 24 * 60 * 60 * 1000;
                    (ident, w2) = makeId w1;
                    b = JObj [(''id'', JStr ident), (''message'', JStr msg),
                              (''createdAt'', JNum created), (''expiresAt'', JNum expires)];
                    w3 = saveState (w2\<lparr>state := (state w2)\<lparr>broadcast := b\<rparr>\<rparr>);
                    w4 = broadcastWS w3 (JObj [(''type'', JStr ''broadcast''), (''broadcast'', b)])
                in ((200, JObj [(''ok'', JBool True), (''broadcast'', b)]), w4))) w"

definition setSiteLockdown :: "bool \<Rightarrow> config \<Rightarrow> world \<Rightarrow> request \<Rightarrow> response \<times> world" where
  "setSiteLockdown en cfg w req =
     requirePin cfg req
       (\<lambda>w. let w1 = w\<lparr>state := (state w)\<lparr>lockdownS := (lockdownS (state w))\<lparr>enabled := en\<rparr>\<rparr>\<rparr>;
                 (t, w2) = nowMs w1;
                 w3 = saveState
                        (w2\<lparr>state := (state w2)\<lparr>lockdownS := (lockdownS (state w2))\<lparr>updatedAtL := t\<rparr>\<rparr>\<rparr>);
                 w4 = broadcastWS w3
                        (JObj [(''type'', JStr ''lockdown''), (''enabled'', JBool en),
                               (''updatedAt'', JNum (updatedAtL (lockdownS (state w3))))])
             in ((200, JObj [(''ok'', JBool True),
                             (''lockdown'', lockdownJson (lockdownS (state w4)))]), w4)) w"

definition api_lockdown :: "config \<Rightarrow> world \<Rightarrow> request \<Rightarrow> response \<times> world" where
  "api_lockdown = setSiteLockdown True"

definition api_clear_lockdown :: "config \<Rightarrow> world \<Rightarrow> request \<Rightarrow> response \<times> world" where
  "api_clear_lockdown = setSiteLockdown False"

text \<open>The process as it starts with no persisted documents: the initialisers of
  \<open>state\<close> and \<open>accessStore\<close>, a clock and a random source.\<close>

definition initialWorld :: "(nat \<Rightarrow> int) \<Rightarrow> (nat \<Rightarrow> string) \<Rightarrow> world" where
  "initialWorld clk rnd =
     \<lparr>accessStore = \<lparr>lockdown = False, clients = Map.empty, ipBans = Map.empty\<rparr>,
      state = \<lparr>lockdownS = \<lparr>enabled = False, updatedAtL = 0\<rparr>, broadcast = JNull\<rparr>,
      accessWrites = [], stateWrites = [],
      clock = clk, ticks = 0, randoms = rnd, draws = 0, wsClients = []\<rparr>"

subsection \<open>Notions used to state the properties\<close>

text \<open>The status of a client as every reader in the source takes it: through
  \<open>normalizeLegacyStatus\<close>.\<close>

definition clientStatus :: "world \<Rightarrow> string \<Rightarrow> string option" where
  "clientStatus w cid =
     map_option (\<lambda>rec. normalizeLegacyStatus (JStr (status rec))) (clients (accessStore w) cid)"

text \<open>A run of evaluations of the decision, one per request, with nothing in between.\<close>

fun evaluations :: "world \<Rightarrow> (request \<times> jsval) list \<Rightarrow> world" where
  "evaluations w [] = w"
| "evaluations w ((req, clientID) # rs) =
     evaluations (snd (computeAccessDecision w req clientID)) rs"

text \<open>A run of \<open>POST /api/check\<close> requests with nothing in between.\<close>

fun checks :: "world \<Rightarrow> request list \<Rightarrow> world" where
  "checks w [] = w"
| "checks w (req # reqs) = checks (snd (api_check w req)) reqs"

subsection \<open>Scenarios\<close>

definition exampleClock :: "nat \<Rightarrow> int" where
  "exampleClock n = 1700000000000 + int n"

definition exampleRandoms :: "nat \<Rightarrow> string" where
  "exampleRandoms n = ''k3j9x0a1''"

definition exampleWorld :: world where
  "exampleWorld = initialWorld exampleClock exampleRandoms"

definition exampleConfig :: config where
  "exampleConfig = \<lparr>ADMIN_PIN = ''admin-1'', AUTH_PIN = ''2468'', UNBAN_PIN = ''1357''\<rparr>"

text \<open>A store that knows the client \<open>abc\<close> as suspicious, with access-lockdown on or
  off.\<close>

definition suspiciousWorld :: "bool \<Rightarrow> world" where
  "suspiciousWorld locked =
     exampleWorld\<lparr>accessStore :=
       \<lparr>lockdown = locked,
        clients = [''abc'' \<mapsto> (newClientRecord 1000 2000)\<lparr>status := ''suspicious''\<rparr>],
        ipBans = Map.empty\<rparr>\<rparr>"

text \<open>A request from a phone at 10.0.0.7.\<close>

definition phoneRequest :: "jsval \<Rightarrow> request" where
  "phoneRequest b =
     \<lparr>ip = ''10.0.0.7'', remoteAddress = [], userAgent = ''Mozilla/5.0 (Linux; Android 14)'',
      adminPin = [], body = b\<rparr>"

text \<open>The operator's request to ban an address with a message, and the world after the
  ban of 10.0.0.7 in \<open>suspiciousWorld False\<close>.\<close>

definition banRequest :: "string \<Rightarrow> string \<Rightarrow> request" where
  "banRequest addr msg =
     \<lparr>ip = ''192.168.1.5'', remoteAddress = [], userAgent = ''curl/8.4.0'',
      adminPin = ''admin-1'',
      body = JObj [(''ip'', JStr addr), (''banMessage'', JStr msg)]\<rparr>"

definition bannedIpWorld :: "string \<Rightarrow> world" where
  "bannedIpWorld msg =
     snd (admin_ban_ip exampleConfig (suspiciousWorld False) (banRequest ''10.0.0.7'' msg))"

text \<open>A store that knows the client \<open>abc\<close> as verified and holds a ban of
  10.0.0.7.\<close>

definition verifiedBannedWorld :: world where
  "verifiedBannedWorld =
     exampleWorld\<lparr>accessStore :=
       \<lparr>lockdown = False,
        clients = [''abc'' \<mapsto> (newClientRecord 1000 2000)
                      \<lparr>status := ''verified'', verifiedAt := 3000\<rparr>],
        ipBans = [''10.0.0.7'' \<mapsto> \<lparr>message = ''spam'', createdAt = 4000, updatedAt = 4000\<rparr>]\<rparr>\<rparr>"


text \<open>The phone's \<open>POST /api/check\<close> with a client id, and the operator's
  \<open>POST /api/admin/lockdown {"enabled": true}\<close>.\<close>

definition checkRequest :: "string \<Rightarrow> request" where
  "checkRequest token = phoneRequest (JObj [(''clientID'', JStr token)])"



text \<open>A store that knows the unverified client \<open>pc\<close> with the user agent of a Windows
  browser.\<close>

definition desktopWorld :: world where
  "desktopWorld =
     exampleWorld\<lparr>accessStore :=
       \<lparr>lockdown = False,
        clients = [''pc'' \<mapsto> (newClientRecord 1000 2000)
                     \<lparr>ua := ''Mozilla/5.0 (Windows NT 10.0; Win64; x64)''\<rparr>],
        ipBans = Map.empty\<rparr>\<rparr>"


text \<open>A clock that reads \<open>T\<close> and \<open>T + 1\<close> and from then on \<open>T + 86400001\<close>, the
  world that starts with it, and the operator's broadcast request.\<close>

definition dayClock :: "nat \<Rightarrow> int" where
  "dayClock n = (if n < 2 then 1700000000000 + int n else 1700086400001)"

definition dayWorld :: world where
  "dayWorld = initialWorld dayClock exampleRandoms"

definition broadcastRequest :: "string \<Rightarrow> request" where
  "broadcastRequest m =
     \<lparr>ip = ''192.168.1.5'', remoteAddress = [], userAgent = ''curl/8.4.0'',
      adminPin = ''admin-1'', body = JObj [(''message'', JStr m)]\<rparr>"


section \<open>Basic facts\<close>

subsection \<open>Strings and statuses\<close>

lemma dropWhile_self: "xs = [] \<or> \<not> P (hd xs) \<Longrightarrow> dropWhile P xs = xs"
  by (cases xs) auto

text \<open>Trimming a trimmed string changes nothing.\<close>

lemma trim_trim: "trim (trim s) = trim s"
proof -
  define t where "t = dropWhile isWhiteSpace s"
  define u where "u = dropWhile isWhiteSpace (rev t)"
  have ht: "t = [] \<or> \<not> isWhiteSpace (hd t)"
    unfolding t_def using hd_dropWhile by blast
  have hu: "u = [] \<or> \<not> isWhiteSpace (hd u)"
    unfolding u_def using hd_dropWhile by blast
  have hr: "rev u = [] \<or> \<not> isWhiteSpace (hd (rev u))"
  proof (cases "u = []")
    case True
    then show ?thesis by simp
  next
    case False
    have "rev t = takeWhile isWhiteSpace (rev t) @ u"
      unfolding u_def by simp
    then have "last (rev t) = last u"
      using False by (metis last_appendR)
    moreover have "t \<noteq> []"
      using False unfolding u_def by auto
    ultimately have "hd (rev u) = hd t"
      using False by (simp add: hd_rev last_rev)
    then show ?thesis
      using ht \<open>t \<noteq> []\<close> by simp
  qed
  have "trim (rev u) = rev u"
    unfolding trim_def
    using dropWhile_self [of "rev u" isWhiteSpace, OF hr] dropWhile_self [of u isWhiteSpace, OF hu]
    by simp
  moreover have "trim s = rev u"
    unfolding trim_def t_def u_def by simp
  ultimately show ?thesis by simp
qed



lemma jsOr_str: "jsOr (JStr s) (JStr []) = JStr s"
  by (simp add: jsOr_def)

lemma getRequestIP_normal: "normalizeStr (JStr (getRequestIP req)) = getRequestIP req"
  by (simp add: getRequestIP_def jsOr_def trim_trim)

lemma nls_cases:
  "normalizeLegacyStatus x = ''unverified'' \<or> normalizeLegacyStatus x = ''banned'' \<or>
   normalizeLegacyStatus x = ''verified'' \<or> normalizeLegacyStatus x = ''suspicious''"
  by (simp add: normalizeLegacyStatus_def Let_def)

lemma nls_canonical:
  "normalizeLegacyStatus (JStr ''unverified'') = ''unverified''"
  "normalizeLegacyStatus (JStr ''banned'') = ''banned''"
  "normalizeLegacyStatus (JStr ''verified'') = ''verified''"
  "normalizeLegacyStatus (JStr ''suspicious'') = ''suspicious''"
  by (simp_all add: normalizeLegacyStatus_def Let_def trim_def isWhiteSpace_def
        toLowerCase_def lowerChar_def)

lemma nls_idem: "normalizeLegacyStatus (JStr (normalizeLegacyStatus x)) = normalizeLegacyStatus x"
  using nls_cases [of x] by (auto simp: nls_canonical)

subsection \<open>The store and the decision\<close>


lemma isDesktopish_status: "isDesktopish (r\<lparr>status := s\<rparr>) = isDesktopish r"
  by (simp add: isDesktopish_def)


lemma ipBanDecision_Some:
  assumes "getRequestIP req \<noteq> []" and "ipBans (accessStore w) (getRequestIP req) = Some rec"
  shows "ipBanDecision w (JStr (getRequestIP req)) =
     Some [(''banned'', JBool True), (''reason'', JStr ''ip_ban''),
           (''banMessage'', JStr (clampStr (JStr (message rec)) 500))]"
  using assms unfolding ipBanDecision_def
  by (simp only: getRequestIP_normal Let_def jsOr_str) simp

lemma ipBanDecision_None:
  assumes "getRequestIP req = [] \<or> ipBans (accessStore w) (getRequestIP req) = None"
  shows "ipBanDecision w (JStr (getRequestIP req)) = None"
  using assms unfolding ipBanDecision_def
  by (simp only: getRequestIP_normal Let_def) auto



text \<open>The clients after an evaluation: the record of the evaluated client is the only one
  that can differ.\<close>

lemma cad_clients:
  "clients (accessStore (snd (computeAccessDecision w req clientID))) =
     (if ipBanDecision w (JStr (getRequestIP req)) = None \<and> normalizeStr clientID \<noteq> []
      then (case clients (accessStore w) (normalizeStr clientID) of
              None \<Rightarrow> clients (accessStore w)
            | Some r \<Rightarrow>
                if normalizeLegacyStatus (JStr (status r)) = ''unverified'' \<and> isDesktopish r
                then (clients (accessStore w))(normalizeStr clientID \<mapsto>
                        r\<lparr>status := ''suspicious'', suspiciousAt := clock w (ticks w)\<rparr>)
                else (clients (accessStore w))(normalizeStr clientID \<mapsto>
                        r\<lparr>status := normalizeLegacyStatus (JStr (status r))\<rparr>))
      else clients (accessStore w))"
  unfolding computeAccessDecision_def Let_def
  by (auto simp: setClient_def nowMs_def saveAccess_def isDesktopish_status split: option.splits)

lemma cad_status_change:
  assumes "clientStatus (snd (computeAccessDecision w req clientID)) c \<noteq> clientStatus w c"
  shows "clientStatus w c = Some ''unverified'' \<and>
         clientStatus (snd (computeAccessDecision w req clientID)) c = Some ''suspicious'' \<and>
         (\<exists>r. clients (accessStore w) c = Some r \<and> isDesktopish r) \<and>
         c = normalizeStr clientID"
  using assms unfolding clientStatus_def cad_clients
  by (auto simp: nls_idem nls_canonical split: if_splits option.splits)

lemma cad_status_keep:
  assumes "clientStatus w c = Some s" and "s \<noteq> ''unverified''"
  shows "clientStatus (snd (computeAccessDecision w req clientID)) c = Some s"
  using cad_status_change [of w req clientID c] assms by auto

lemma cad_record_keep:
  assumes "clients (accessStore w) c = Some r"
    and "status r = ''verified'' \<or> status r = ''suspicious'' \<or> status r = ''banned''"
  shows "clients (accessStore (snd (computeAccessDecision w req clientID))) c = Some r"
  using assms unfolding cad_clients
  by (auto simp: nls_canonical split: option.splits)

lemma evaluations_keep:
  "clientStatus w c = Some s \<Longrightarrow> s \<noteq> ''unverified'' \<Longrightarrow>
   clientStatus (evaluations w rs) c = Some s"
proof (induction rs arbitrary: w)
  case Nil
  then show ?case by simp
next
  case (Cons a rs)
  obtain req clientID where a: "a = (req, clientID)"
    by (cases a)
  have "clientStatus (snd (computeAccessDecision w req clientID)) c = Some s"
    using Cons.prems by (rule cad_status_keep)
  then show ?case
    using Cons.IH Cons.prems(2) a by simp
qed



subsection \<open>Presence and telemetry\<close>

lemma ensure_new:
  assumes "normalizeStr token \<noteq> []" and "clients (accessStore w) (normalizeStr token) = None"
  shows "ensureClientRecord w token =
     (Some (normalizeStr token),
      saveAccess (setClient (normalizeStr token)
        (newClientRecord (clock w (ticks w)) (clock w (Suc (ticks w))))
        (w\<lparr>ticks := Suc (Suc (ticks w))\<rparr>)))"
  using assms by (simp add: ensureClientRecord_def Let_def nowMs_def setClient_def saveAccess_def)

lemma ensure_existing:
  assumes "normalizeStr token \<noteq> []" and "clients (accessStore w) (normalizeStr token) = Some r"
  shows "ensureClientRecord w token =
     (Some (normalizeStr token),
      setClient (normalizeStr token)
        (r\<lparr>lastSeenAt := clock w (ticks w), status := normalizeLegacyStatus (JStr (status r))\<rparr>)
        (w\<lparr>ticks := Suc (ticks w)\<rparr>))"
  using assms
  by (simp add: ensureClientRecord_def Let_def nowMs_def setClient_def updClient_def)

lemma rct_empty: "normalizeStr token = [] \<Longrightarrow> recordClientTelemetry w req token device = w"
  by (simp add: recordClientTelemetry_def ensureClientRecord_def)





text \<open>Telemetry and a whole check keep the status of a client that is not unverified.\<close>

lemma rct_status_keep:
  assumes "clientStatus w c = Some s"
  shows "clientStatus (recordClientTelemetry w req token device) c = Some s"
proof (cases "normalizeStr token = []")
  case True
  then show ?thesis using assms by (simp add: rct_empty)
next
  case False
  show ?thesis
  proof (cases "clients (accessStore w) (normalizeStr token)")
    case None
    then show ?thesis
      using assms False
      by (auto simp: clientStatus_def recordClientTelemetry_def ensure_new Let_def split_def
          updClient_def setClient_def nowMs_def saveAccess_def)
  next
    case (Some r)
    then show ?thesis
      using assms False
      by (auto simp: clientStatus_def recordClientTelemetry_def ensure_existing Let_def split_def
          updClient_def setClient_def nowMs_def saveAccess_def nls_idem)
  qed
qed

lemma api_check_status_keep:
  assumes "clientStatus w c = Some s" and "s \<noteq> ''unverified''"
  shows "clientStatus (snd (api_check w req)) c = Some s"
proof -
  define w1 where "w1 = (if normalizeStr (andProp (body req) ''clientID'') \<noteq> []
     then recordClientTelemetry w req (JStr (normalizeStr (andProp (body req) ''clientID''))) JNull else w)"
  have "clientStatus w1 c = Some s"
    unfolding w1_def using assms(1) by (simp add: rct_status_keep)
  then have "clientStatus (snd (computeAccessDecision w1 req
       (JStr (normalizeStr (andProp (body req) ''clientID''))))) c = Some s"
    using assms(2) by (rule cad_status_keep)
  then show ?thesis
    unfolding api_check_def Let_def split_def w1_def by simp
qed

lemma checks_keep:
  "clientStatus w c = Some s \<Longrightarrow> s \<noteq> ''unverified'' \<Longrightarrow> clientStatus (checks w reqs) c = Some s"
  by (induction reqs arbitrary: w) (simp_all add: api_check_status_keep)


subsection \<open>The broadcast\<close>

lemma prune_expired:
  assumes "truthy (broadcast (state w))"
    and "getProp (broadcast (state w)) ''expiresAt'' = JNum e"
    and "clock w (ticks w) \<ge> e"
  shows "pruneExpiredBroadcast w =
     w\<lparr>ticks := Suc (ticks w),
       state := (state w)\<lparr>broadcast := JNull\<rparr>,
       stateWrites := (state w)\<lparr>broadcast := JNull\<rparr> # stateWrites w\<rparr>"
  using assms by (simp add: pruneExpiredBroadcast_def nowMs_def saveState_def)

lemma broadcastWS_frame:
  "state (broadcastWS w obj) = state w"
  "stateWrites (broadcastWS w obj) = stateWrites w"
  "clock (broadcastWS w obj) = clock w"
  "ticks (broadcastWS w obj) = ticks w"
  by (simp_all add: broadcastWS_def)

lemma api_broadcast_state:
  assumes pin: "ADMIN_PIN cfg \<noteq> []" "adminPin req = ADMIN_PIN cfg"
    and msg: "truthy (body req)" "getProp (body req) ''message'' = JStr m" "trim m \<noteq> []"
  shows "broadcast (state (snd (api_broadcast cfg w req))) =
           JObj [(''id'', JStr (intToString36 (clock w (Suc (ticks w))) @ ''-'' @ randoms w (draws w))),
                 (''message'', JStr (trim m)),
                 (''createdAt'', JNum (clock w (ticks w))),
                 (''expiresAt'', JNum (clock w (ticks w) + 86400000))]"
    and "ticks (snd (api_broadcast cfg w req)) = Suc (Suc (ticks w))"
    and "clock (snd (api_broadcast cfg w req)) = clock w"
    and "stateWrites (snd (api_broadcast cfg w req)) = state (snd (api_broadcast cfg w req)) # stateWrites w"
    and "fst (api_broadcast cfg w req) =
           (200, JObj [(''ok'', JBool True), (''broadcast'', broadcast (state (snd (api_broadcast cfg w req))))])"
  using assms
  by (simp_all add: api_broadcast_def requirePin_def Let_def nowMs_def makeId_def saveState_def
        broadcastWS_frame)

lemma read_expired:
  assumes "truthy (broadcast (state w))"
    and "getProp (broadcast (state w)) ''expiresAt'' = JNum e"
    and "clock w (ticks w) \<ge> e"
  shows "api_state w =
           ((200, JObj [(''ok'', JBool True),
                        (''lockdown'', lockdownJson (lockdownS (state w))),
                        (''broadcast'', JNull)]),
            w\<lparr>ticks := Suc (ticks w),
              state := (state w)\<lparr>broadcast := JNull\<rparr>,
              stateWrites := (state w)\<lparr>broadcast := JNull\<rparr> # stateWrites w\<rparr>)"
    and "health w =
           ((200, JObj [(''ok'', JBool True)]),
            w\<lparr>ticks := Suc (ticks w),
              state := (state w)\<lparr>broadcast := JNull\<rparr>,
              stateWrites := (state w)\<lparr>broadcast := JNull\<rparr> # stateWrites w\<rparr>)"
    and "ws_connection w ws =
            w\<lparr>ticks := Suc (ticks w),
              state := (state w)\<lparr>broadcast := JNull\<rparr>,
              stateWrites := (state w)\<lparr>broadcast := JNull\<rparr> # stateWrites w,
              wsClients := wsClients w @
                [safeSend ws (JObj [(''type'', JStr ''state''),
                                    (''lockdown'', lockdownJson (lockdownS (state w))),
                                    (''broadcast'', JNull)])]\<rparr>"
  by (simp_all add: api_state_def health_def ws_connection_def prune_expired [OF assms] Let_def)

subsection \<open>The scenarios\<close>


lemma phoneRequest_ip: "getRequestIP (phoneRequest b) = ''10.0.0.7''"
  by (simp add: getRequestIP_def phoneRequest_def jsOr_def trim_def isWhiteSpace_def)






lemma bannedIpWorld_store:
  "accessStore (bannedIpWorld msg) =
     \<lparr>lockdown = False,
      clients = [''abc'' \<mapsto> (newClientRecord 1000 2000)\<lparr>status := ''suspicious''\<rparr>],
      ipBans = [''10.0.0.7'' \<mapsto>
        \<lparr>message = clampStr (JStr msg) 500, createdAt = 1700000000000,
         updatedAt = 1700000000001\<rparr>]\<rparr>"
  by (simp add: bannedIpWorld_def admin_ban_ip_def requirePin_def exampleConfig_def banRequest_def
        suspiciousWorld_def exampleWorld_def initialWorld_def exampleClock_def andProp_def
        trim_def isWhiteSpace_def Let_def nowMs_def saveAccess_def setIpBans_def)




lemma clampStr_cut:
  "clampStr (JStr (replicate 499 CHR ''a'' @ '' b'')) 500 = replicate 499 CHR ''a'' @ '' ''"
  by (simp add: clampStr_def trim_def isWhiteSpace_def Let_def)

lemma clampStr_cut_again:
  "clampStr (JStr (replicate 499 CHR ''a'' @ '' '')) 500 = replicate 499 CHR ''a''"
  by (simp add: clampStr_def trim_def isWhiteSpace_def Let_def)

lemma broadcastRequest_ok:
  "ADMIN_PIN exampleConfig \<noteq> [] \<and> adminPin (broadcastRequest ''hello'') = ADMIN_PIN exampleConfig \<and>
   truthy (body (broadcastRequest ''hello'')) \<and>
   getProp (body (broadcastRequest ''hello'')) ''message'' = JStr ''hello'' \<and> trim ''hello'' \<noteq> []"
  by (simp add: exampleConfig_def broadcastRequest_def trim_def isWhiteSpace_def)

lemma dayWorld_clock:
  "clock dayWorld (ticks dayWorld) = 1700000000000"
  "clock dayWorld (Suc (Suc (ticks dayWorld))) = 1700086400001"
  by (simp_all add: dayWorld_def initialWorld_def dayClock_def)

lemma desktop_change:
  "clientStatus desktopWorld ''pc'' = Some ''unverified''"
  "clientStatus (snd (computeAccessDecision desktopWorld (phoneRequest JNull) (JStr ''pc''))) ''pc''
      \<noteq> clientStatus desktopWorld ''pc''"
proof -
  have d: "isDesktopish ((newClientRecord 1000 2000)\<lparr>ua := ''Mozilla/5.0 (Windows NT 10.0; Win64; x64)''\<rparr>)"
    by (simp add: isDesktopish_def newClientRecord_def toLowerCase_def lowerChar_def Let_def)
  have k: "clients (accessStore desktopWorld) ''pc'' =
     Some ((newClientRecord 1000 2000)\<lparr>ua := ''Mozilla/5.0 (Windows NT 10.0; Win64; x64)''\<rparr>)"
    by (simp add: desktopWorld_def)
  have nb: "ipBanDecision desktopWorld (JStr (getRequestIP (phoneRequest JNull))) = None"
    by (rule ipBanDecision_None) (simp add: desktopWorld_def)
  have n: "normalizeStr (JStr ''pc'') = ''pc''"
    by (simp add: trim_def isWhiteSpace_def)
  have s: "normalizeLegacyStatus (JStr (status ((newClientRecord 1000 2000)\<lparr>ua := ''Mozilla/5.0 (Windows NT 10.0; Win64; x64)''\<rparr>))) = ''unverified''"
    by (simp add: newClientRecord_def nls_canonical)
  show u: "clientStatus desktopWorld ''pc'' = Some ''unverified''"
    unfolding clientStatus_def k using s by simp
  have "clientStatus (snd (computeAccessDecision desktopWorld (phoneRequest JNull) (JStr ''pc''))) ''pc''
      = Some ''suspicious''"
    unfolding clientStatus_def cad_clients nb n k
    using d s by (simp add: nls_canonical)
  then show "clientStatus (snd (computeAccessDecision desktopWorld (phoneRequest JNull) (JStr ''pc''))) ''pc''
      \<noteq> clientStatus desktopWorld ''pc''"
    using u by simp
qed

section \<open>The access decision\<close>

text \<open>
  Claim C1, amended. For every request whose source address, as \<open>getRequestIP\<close> reads
  it, is not empty and has an IP ban record in the store, \<open>computeAccessDecision\<close>
  returns \<open>{banned: true, reason: "ip_ban", banMessage, allowed: false}\<close> whatever the
  client id, the client's record or its status (a verified client too), and changes
  nothing. The \<open>banMessage\<close> it returns is the record's message passed through
  \<open>clampStr(_, 500)\<close>: trimmed and cut to 500 characters.
\<close>

theorem ip_ban_precedence:
  assumes "getRequestIP req \<noteq> []"
    and "ipBans (accessStore w) (getRequestIP req) = Some rec"
  shows "computeAccessDecision w req clientID =
     (JObj [(''banned'', JBool True), (''reason'', JStr ''ip_ban''),
            (''banMessage'', JStr (clampStr (JStr (message rec)) 500)),
            (''allowed'', JBool False)], w)"
  unfolding computeAccessDecision_def Let_def
  by (simp add: ipBanDecision_Some [OF assms])

text \<open>The theorem at a request of the verified client \<open>abc\<close> from the banned
  address.\<close>

theorem ip_ban_precedence_witness:
  "getRequestIP (checkRequest ''abc'') \<noteq> [] \<and>
   ipBans (accessStore verifiedBannedWorld) (getRequestIP (checkRequest ''abc'')) =
     Some \<lparr>message = ''spam'', createdAt = 4000, updatedAt = 4000\<rparr> \<and>
   clientStatus verifiedBannedWorld ''abc'' = Some ''verified'' \<and>
   computeAccessDecision verifiedBannedWorld (checkRequest ''abc'') (JStr ''abc'') =
     (JObj [(''banned'', JBool True), (''reason'', JStr ''ip_ban''),
            (''banMessage'', JStr ''spam''), (''allowed'', JBool False)], verifiedBannedWorld)"
proof -
  have ip: "getRequestIP (checkRequest ''abc'') = ''10.0.0.7''"
    by (simp add: checkRequest_def phoneRequest_ip)
  have ban: "ipBans (accessStore verifiedBannedWorld) (getRequestIP (checkRequest ''abc'')) =
      Some \<lparr>message = ''spam'', createdAt = 4000, updatedAt = 4000\<rparr>"
    by (simp add: verifiedBannedWorld_def ip)
  have ne: "getRequestIP (checkRequest ''abc'') \<noteq> []"
    by (simp add: ip)
  have v: "clientStatus verifiedBannedWorld ''abc'' = Some ''verified''"
    by (simp add: clientStatus_def verifiedBannedWorld_def nls_canonical)
  show ?thesis
    using ip_ban_precedence [OF ne ban, of "JStr ''abc''"] ne ban v
    by (simp add: clampStr_def trim_def isWhiteSpace_def)
qed

text \<open>
  The message of the decision is not always the message of the record. The operator bans
  10.0.0.7 with a message of 501 characters: 499 letters, a space and a letter. The
  handler stores the first 500 characters, which end in the space; the decision for a
  request from 10.0.0.7 carries the 499 letters.
\<close>

theorem ip_ban_message_counterexample:
  "ipBans (accessStore (bannedIpWorld (replicate 499 CHR ''a'' @ '' b'')))
       (getRequestIP (phoneRequest JNull)) =
     Some \<lparr>message = replicate 499 CHR ''a'' @ '' '', createdAt = 1700000000000,
           updatedAt = 1700000000001\<rparr> \<and>
   getProp (fst (computeAccessDecision (bannedIpWorld (replicate 499 CHR ''a'' @ '' b''))
                   (phoneRequest JNull) (JStr ''abc''))) ''banMessage''
     \<noteq> JStr (replicate 499 CHR ''a'' @ '' '')"
proof -
  have ban: "ipBans (accessStore (bannedIpWorld (replicate 499 CHR ''a'' @ '' b''))) ''10.0.0.7'' =
      Some \<lparr>message = replicate 499 CHR ''a'' @ '' '', createdAt = 1700000000000,
            updatedAt = 1700000000001\<rparr>"
    by (simp only: bannedIpWorld_store clampStr_cut) simp
  have "fst (computeAccessDecision (bannedIpWorld (replicate 499 CHR ''a'' @ '' b''))
                   (phoneRequest JNull) (JStr ''abc'')) =
        JObj [(''banned'', JBool True), (''reason'', JStr ''ip_ban''),
              (''banMessage'', JStr (replicate 499 CHR ''a'')), (''allowed'', JBool False)]"
    unfolding computeAccessDecision_def ipBanDecision_def Let_def phoneRequest_ip
    by (simp add: ban trim_def isWhiteSpace_def jsOr_str clampStr_cut_again)
  then show ?thesis
    using ban phoneRequest_ip by simp
qed

text \<open>
  Claim C2. Under access-lockdown only verified clients are to be allowed. The code
  does otherwise for a suspicious client: with the lockdown flag set and the client
  \<open>abc\<close> known as suspicious, the decision for a request of \<open>abc\<close> is
  \<open>allowed: true\<close>. The test for a suspicious client returns before the lockdown
  test is reached.
\<close>

theorem lockdown_allows_suspicious:
  "lockdown (accessStore (suspiciousWorld True)) \<and>
   clientStatus (suspiciousWorld True) ''abc'' = Some ''suspicious'' \<and>
   fst (computeAccessDecision (suspiciousWorld True) (phoneRequest JNull) (JStr ''abc'')) =
     JObj [(''banned'', JBool False), (''allowed'', JBool True),
           (''reason'', JStr ''client_suspicious''), (''status'', JStr ''suspicious'')]"
  by (simp add: suspiciousWorld_def exampleWorld_def initialWorld_def phoneRequest_def
        clientStatus_def newClientRecord_def computeAccessDecision_def ipBanDecision_def
        getRequestIP_def jsOr_def trim_def isWhiteSpace_def Let_def setClient_def nls_canonical)




text \<open>
  Claim C5. The status is read as the code reads it, through \<open>normalizeLegacyStatus\<close>
  (\<open>clientStatus\<close>). An evaluation of the decision changes the status of a client only
  from unverified to suspicious, and only for a record whose telemetry \<open>isDesktopish\<close>
  accepts. The status of a verified, suspicious or banned client is the same after the
  evaluation; when the stored string is one of \<open>verified\<close>, \<open>suspicious\<close>,
  \<open>banned\<close> the whole record is the same. A suspicious client is still suspicious after
  any run of evaluations, and after any run of \<open>POST /api/check\<close> requests.
\<close>

theorem heuristic_gating:
  "(clientStatus (snd (computeAccessDecision w req clientID)) c \<noteq> clientStatus w c \<longrightarrow>
      clientStatus w c = Some ''unverified'' \<and>
      clientStatus (snd (computeAccessDecision w req clientID)) c = Some ''suspicious'' \<and>
      (\<exists>r. clients (accessStore w) c = Some r \<and> isDesktopish r)) \<and>
   (clientStatus w c \<in> {Some ''verified'', Some ''suspicious'', Some ''banned''} \<longrightarrow>
      clientStatus (snd (computeAccessDecision w req clientID)) c = clientStatus w c) \<and>
   (clients (accessStore w) c = Some r \<and> status r \<in> {''verified'', ''suspicious'', ''banned''} \<longrightarrow>
      clients (accessStore (snd (computeAccessDecision w req clientID))) c = Some r) \<and>
   (clientStatus w c = Some ''suspicious'' \<longrightarrow>
      clientStatus (evaluations w rs) c = Some ''suspicious'' \<and>
      clientStatus (checks w reqs) c = Some ''suspicious'')"
proof (intro conjI impI)
  assume "clientStatus (snd (computeAccessDecision w req clientID)) c \<noteq> clientStatus w c"
  from cad_status_change [OF this]
  show "clientStatus w c = Some ''unverified''"
    and "clientStatus (snd (computeAccessDecision w req clientID)) c = Some ''suspicious''"
    and "\<exists>r. clients (accessStore w) c = Some r \<and> isDesktopish r"
    by blast+
next
  assume "clientStatus w c \<in> {Some ''verified'', Some ''suspicious'', Some ''banned''}"
  then show "clientStatus (snd (computeAccessDecision w req clientID)) c = clientStatus w c"
    using cad_status_keep [of w c _ req clientID] by auto
next
  assume "clients (accessStore w) c = Some r \<and> status r \<in> {''verified'', ''suspicious'', ''banned''}"
  then show "clients (accessStore (snd (computeAccessDecision w req clientID))) c = Some r"
    using cad_record_keep [of w c r req clientID] by auto
next
  assume s: "clientStatus w c = Some ''suspicious''"
  then show "clientStatus (evaluations w rs) c = Some ''suspicious''"
    by (rule evaluations_keep) simp
  from s show "clientStatus (checks w reqs) c = Some ''suspicious''"
    by (rule checks_keep) simp
qed

text \<open>The theorem at the suspicious client \<open>abc\<close> under lockdown, evaluated twice, and
  at the unverified client \<open>pc\<close> with a Windows user agent, whose status does change.\<close>

theorem heuristic_gating_witness:
  "clientStatus (suspiciousWorld True) ''abc'' = Some ''suspicious'' \<and>
   clientStatus (evaluations (suspiciousWorld True)
       [(phoneRequest JNull, JStr ''abc''), (phoneRequest JNull, JStr ''abc'')]) ''abc'' =
     Some ''suspicious'' \<and>
   clientStatus (checks (suspiciousWorld True) [checkRequest ''abc'', checkRequest ''abc'']) ''abc'' =
     Some ''suspicious'' \<and>
   clients (accessStore (snd (computeAccessDecision (suspiciousWorld True) (phoneRequest JNull) (JStr ''abc'')))) ''abc'' =
     Some ((newClientRecord 1000 2000)\<lparr>status := ''suspicious''\<rparr>) \<and>
   clientStatus desktopWorld ''pc'' = Some ''unverified'' \<and>
   clientStatus (snd (computeAccessDecision desktopWorld (phoneRequest JNull) (JStr ''pc''))) ''pc'' =
     Some ''suspicious''"
proof -
  have s: "clientStatus (suspiciousWorld True) ''abc'' = Some ''suspicious''"
    by (simp add: clientStatus_def suspiciousWorld_def newClientRecord_def nls_canonical)
  have k: "clients (accessStore (suspiciousWorld True)) ''abc'' =
      Some ((newClientRecord 1000 2000)\<lparr>status := ''suspicious''\<rparr>) \<and>
      status ((newClientRecord 1000 2000)\<lparr>status := ''suspicious''\<rparr>)
        \<in> {''verified'', ''suspicious'', ''banned''}"
    by (simp add: suspiciousWorld_def)
  note a = heuristic_gating [of "suspiciousWorld True" "phoneRequest JNull" "JStr ''abc''" "''abc''"
            "(newClientRecord 1000 2000)\<lparr>status := ''suspicious''\<rparr>"
            "[(phoneRequest JNull, JStr ''abc''), (phoneRequest JNull, JStr ''abc'')]"
            "[checkRequest ''abc'', checkRequest ''abc'']"]
  note b = heuristic_gating [of desktopWorld "phoneRequest JNull" "JStr ''pc''" "''pc''"]
  have 1: "clientStatus (evaluations (suspiciousWorld True)
       [(phoneRequest JNull, JStr ''abc''), (phoneRequest JNull, JStr ''abc'')]) ''abc'' =
     Some ''suspicious''"
    using a s by blast
  have chk: "clientStatus (checks (suspiciousWorld True) [checkRequest ''abc'', checkRequest ''abc'']) ''abc'' =
     Some ''suspicious''"
    using a s by blast
  have 2: "clients (accessStore (snd (computeAccessDecision (suspiciousWorld True) (phoneRequest JNull) (JStr ''abc'')))) ''abc'' =
     Some ((newClientRecord 1000 2000)\<lparr>status := ''suspicious''\<rparr>)"
    using a k by blast
  have 3: "clientStatus (snd (computeAccessDecision desktopWorld (phoneRequest JNull) (JStr ''pc''))) ''pc'' =
     Some ''suspicious''"
    using b desktop_change(2) by blast
  show ?thesis
    using s 1 chk 2 3 desktop_change(1) by blast
qed

section \<open>Presence\<close>




section \<open>The first check of a client\<close>







section \<open>The status of a client\<close>

text \<open>
  Claim C4. A suspicious client is to become verified through the operator's verify
  endpoint only. The code does otherwise: the suspicious client \<open>abc\<close> posts the right
  PIN to \<open>/api/auth\<close>, the answer is \<open>{ok: true, allowed: true}\<close> and the client is
  verified. The handler sets the status without looking at the one it replaces.
\<close>

theorem auth_verifies_suspicious:
  "clientStatus (suspiciousWorld False) ''abc'' = Some ''suspicious'' \<and>
   fst (api_auth exampleConfig (suspiciousWorld False)
          (phoneRequest (JObj [(''clientID'', JStr ''abc''), (''pinAttempt'', JStr ''2468'')]))) =
     (200, JObj [(''ok'', JBool True), (''allowed'', JBool True)]) \<and>
   clientStatus (snd (api_auth exampleConfig (suspiciousWorld False)
          (phoneRequest (JObj [(''clientID'', JStr ''abc''), (''pinAttempt'', JStr ''2468'')]))))
       ''abc'' = Some ''verified''"
  by (simp add: suspiciousWorld_def exampleWorld_def initialWorld_def phoneRequest_def
        exampleConfig_def api_auth_def recordClientTelemetry_def ensureClientRecord_def
        updClient_def nowMs_def saveAccess_def andProp_def formatUA_def clampStr_def
        clientStatus_def newClientRecord_def
        getRequestIP_def jsOr_def trim_def isWhiteSpace_def Let_def setClient_def nls_canonical)

section \<open>IP bans\<close>




section \<open>The broadcast\<close>

text \<open>
  Claim C8. A broadcast that the operator creates when the clock reads \<open>T\<close> has
  \<open>createdAt = T\<close> and \<open>expiresAt = T + 86400000\<close>, and a state query at a time of
  \<open>T + 86400000\<close> or later answers \<open>broadcast: null\<close>, with the cleared state written
  to \<open>state.json\<close>. In every world with a broadcast whose \<open>expiresAt\<close> is a number
  that the clock has reached, the state query, the health check and a new web socket
  connection clear the broadcast and save the cleared state before they answer: the
  answer of the state query and the snapshot sent to the socket carry
  \<open>broadcast: null\<close>.
\<close>

theorem broadcast_lifecycle:
  "(ADMIN_PIN cfg \<noteq> [] \<and> adminPin req = ADMIN_PIN cfg \<and>
    truthy (body req) \<and> getProp (body req) ''message'' = JStr m \<and> trim m \<noteq> [] \<longrightarrow>
      getProp (broadcast (state (snd (api_broadcast cfg w req)))) ''createdAt'' =
         JNum (clock w (ticks w)) \<and>
      getProp (broadcast (state (snd (api_broadcast cfg w req)))) ''expiresAt'' =
         JNum (clock w (ticks w) + 86400000) \<and>
      (clock w (Suc (Suc (ticks w))) \<ge> clock w (ticks w) + 86400000 \<longrightarrow>
         getProp (snd (fst (api_state (snd (api_broadcast cfg w req))))) ''broadcast'' = JNull \<and>
         broadcast (state (snd (api_state (snd (api_broadcast cfg w req))))) = JNull \<and>
         stateWrites (snd (api_state (snd (api_broadcast cfg w req)))) =
           (state (snd (api_broadcast cfg w req)))\<lparr>broadcast := JNull\<rparr>
             # stateWrites (snd (api_broadcast cfg w req)))) \<and>
   (truthy (broadcast (state w)) \<and> getProp (broadcast (state w)) ''expiresAt'' = JNum e \<and>
    clock w (ticks w) \<ge> e \<longrightarrow>
      api_state w =
        ((200, JObj [(''ok'', JBool True),
                     (''lockdown'', lockdownJson (lockdownS (state w))),
                     (''broadcast'', JNull)]),
         w\<lparr>ticks := Suc (ticks w),
           state := (state w)\<lparr>broadcast := JNull\<rparr>,
           stateWrites := (state w)\<lparr>broadcast := JNull\<rparr> # stateWrites w\<rparr>) \<and>
      health w =
        ((200, JObj [(''ok'', JBool True)]),
         w\<lparr>ticks := Suc (ticks w),
           state := (state w)\<lparr>broadcast := JNull\<rparr>,
           stateWrites := (state w)\<lparr>broadcast := JNull\<rparr> # stateWrites w\<rparr>) \<and>
      ws_connection w ws =
         w\<lparr>ticks := Suc (ticks w),
           state := (state w)\<lparr>broadcast := JNull\<rparr>,
           stateWrites := (state w)\<lparr>broadcast := JNull\<rparr> # stateWrites w,
           wsClients := wsClients w @
             [safeSend ws (JObj [(''type'', JStr ''state''),
                                 (''lockdown'', lockdownJson (lockdownS (state w))),
                                 (''broadcast'', JNull)])]\<rparr>)"
proof (intro conjI impI)
  assume a: "ADMIN_PIN cfg \<noteq> [] \<and> adminPin req = ADMIN_PIN cfg \<and>
    truthy (body req) \<and> getProp (body req) ''message'' = JStr m \<and> trim m \<noteq> []"
  define w1 where "w1 = snd (api_broadcast cfg w req)"
  have b: "broadcast (state w1) =
           JObj [(''id'', JStr (intToString36 (clock w (Suc (ticks w))) @ ''-'' @ randoms w (draws w))),
                 (''message'', JStr (trim m)),
                 (''createdAt'', JNum (clock w (ticks w))),
                 (''expiresAt'', JNum (clock w (ticks w) + 86400000))]"
    and t: "ticks w1 = Suc (Suc (ticks w))" and c: "clock w1 = clock w"
    unfolding w1_def using a by (simp_all add: api_broadcast_state)
  show "getProp (broadcast (state (snd (api_broadcast cfg w req)))) ''createdAt'' =
         JNum (clock w (ticks w))"
    and "getProp (broadcast (state (snd (api_broadcast cfg w req)))) ''expiresAt'' =
         JNum (clock w (ticks w) + 86400000)"
    using b unfolding w1_def by simp_all
  assume late: "clock w (Suc (Suc (ticks w))) \<ge> clock w (ticks w) + 86400000"
  have tr: "truthy (broadcast (state w1))"
    and ex: "getProp (broadcast (state w1)) ''expiresAt'' = JNum (clock w (ticks w) + 86400000)"
    and ge: "clock w1 (ticks w1) \<ge> clock w (ticks w) + 86400000"
    using b t c late by simp_all
  show "getProp (snd (fst (api_state (snd (api_broadcast cfg w req))))) ''broadcast'' = JNull"
    and "broadcast (state (snd (api_state (snd (api_broadcast cfg w req))))) = JNull"
    and "stateWrites (snd (api_state (snd (api_broadcast cfg w req)))) =
           (state (snd (api_broadcast cfg w req)))\<lparr>broadcast := JNull\<rparr>
             # stateWrites (snd (api_broadcast cfg w req))"
    unfolding w1_def [symmetric] by (simp_all add: read_expired(1) [OF tr ex ge])
next
  assume a: "truthy (broadcast (state w)) \<and> getProp (broadcast (state w)) ''expiresAt'' = JNum e \<and>
    clock w (ticks w) \<ge> e"
  then have tr: "truthy (broadcast (state w))"
    and ex: "getProp (broadcast (state w)) ''expiresAt'' = JNum e"
    and ge: "clock w (ticks w) \<ge> e"
    by simp_all
  show "api_state w =
        ((200, JObj [(''ok'', JBool True),
                     (''lockdown'', lockdownJson (lockdownS (state w))),
                     (''broadcast'', JNull)]),
         w\<lparr>ticks := Suc (ticks w),
           state := (state w)\<lparr>broadcast := JNull\<rparr>,
           stateWrites := (state w)\<lparr>broadcast := JNull\<rparr> # stateWrites w\<rparr>)"
    by (rule read_expired(1) [OF tr ex ge])
  show "health w =
        ((200, JObj [(''ok'', JBool True)]),
         w\<lparr>ticks := Suc (ticks w),
           state := (state w)\<lparr>broadcast := JNull\<rparr>,
           stateWrites := (state w)\<lparr>broadcast := JNull\<rparr> # stateWrites w\<rparr>)"
    by (rule read_expired(2) [OF tr ex ge])
  show "ws_connection w ws =
         w\<lparr>ticks := Suc (ticks w),
           state := (state w)\<lparr>broadcast := JNull\<rparr>,
           stateWrites := (state w)\<lparr>broadcast := JNull\<rparr> # stateWrites w,
           wsClients := wsClients w @
             [safeSend ws (JObj [(''type'', JStr ''state''),
                                 (''lockdown'', lockdownJson (lockdownS (state w))),
                                 (''broadcast'', JNull)])]\<rparr>"
    by (rule read_expired(3) [OF tr ex ge])
qed

text \<open>The theorem at a broadcast created at \<open>T = 1700000000000\<close> and a state query
  at \<open>T + 86400001\<close>.\<close>

theorem broadcast_lifecycle_witness:
  "getProp (broadcast (state (snd (api_broadcast exampleConfig dayWorld (broadcastRequest ''hello'')))))
       ''createdAt'' = JNum 1700000000000 \<and>
   getProp (broadcast (state (snd (api_broadcast exampleConfig dayWorld (broadcastRequest ''hello'')))))
       ''expiresAt'' = JNum 1700086400000 \<and>
   clock dayWorld (Suc (Suc (ticks dayWorld))) = 1700086400001 \<and>
   getProp (snd (fst (api_state (snd (api_broadcast exampleConfig dayWorld (broadcastRequest ''hello''))))))
       ''broadcast'' = JNull \<and>
   broadcast (state (snd (api_state (snd (api_broadcast exampleConfig dayWorld (broadcastRequest ''hello'')))))) =
     JNull"
proof -
  note a = broadcast_lifecycle [of exampleConfig "broadcastRequest ''hello''" "''hello''" dayWorld]
  have ge: "clock dayWorld (Suc (Suc (ticks dayWorld))) \<ge> clock dayWorld (ticks dayWorld) + 86400000"
    by (simp add: dayWorld_clock)
  have 1: "getProp (broadcast (state (snd (api_broadcast exampleConfig dayWorld (broadcastRequest ''hello'')))))
       ''createdAt'' = JNum (clock dayWorld (ticks dayWorld))"
    and 2: "getProp (broadcast (state (snd (api_broadcast exampleConfig dayWorld (broadcastRequest ''hello'')))))
       ''expiresAt'' = JNum (clock dayWorld (ticks dayWorld) + 86400000)"
    and 3: "getProp (snd (fst (api_state (snd (api_broadcast exampleConfig dayWorld (broadcastRequest ''hello''))))))
       ''broadcast'' = JNull"
    and 4: "broadcast (state (snd (api_state (snd (api_broadcast exampleConfig dayWorld (broadcastRequest ''hello'')))))) =
     JNull"
    using a broadcastRequest_ok ge by blast+
  show ?thesis
    using 1 2 3 4 by (simp add: dayWorld_clock)
qed

end
